theory Spec2Isabelle
  imports Main "HOL-Library.Sublist"
begin

section \<open>JavaScript values used by the prompt generator\<close>

text \<open>
  A JavaScript string is modelled as a \<open>string\<close>, one \<open>char\<close> per code unit; the
  model covers code units below 256. The white space that \<open>String.prototype.trim\<close> and
  \<open>parseInt\<close> skip is, in that range: TAB, LF, VT, FF, CR, SPACE and NBSP.
\<close>

definition isWhiteSpace :: "char \<Rightarrow> bool" where
  "isWhiteSpace c =
     (c \<in> set [CHR 0x09, CHR 0x0A, CHR 0x0B, CHR 0x0C, CHR 0x0D, CHR 0x20, CHR 0xA0])"

definition trim :: "string \<Rightarrow> string" where
  "trim s = rev (dropWhile isWhiteSpace (rev (dropWhile isWhiteSpace s)))"

text \<open>\<open>Array.prototype.join\<close> on an array of strings.\<close>

fun join :: "string \<Rightarrow> string list \<Rightarrow> string" where
  "join sep [] = []"
| "join sep [x] = x"
| "join sep (x # y # ys) = x @ sep @ join sep (y # ys)"

text \<open>\<open>a || b\<close> on strings: the empty string is the only falsy string.\<close>

definition orElse :: "string \<Rightarrow> string \<Rightarrow> string" where
  "orElse a b = (if a = [] then b else a)"

text \<open>
  The value \<open>JSON.parse\<close> returns. A number is identified by its canonical rendering
  (what \<open>Number.prototype.toString\<close> gives for it, so that both zeros are \<open>''0''\<close>);
  an object is the list of its own properties, looked up by key.
\<close>

datatype json =
    JNull
  | JBool bool
  | JNumber string
  | JString string
  | JArray "json list"
  | JObject "(string \<times> json) list"

text \<open>
  What the code takes from the JavaScript engine without defining it:
  \<^item> \<open>JSON_parse\<close>: \<open>JSON.parse\<close>, with \<open>Inl\<close> the message of the SyntaxError it throws;
  \<^item> \<open>largeNumberText\<close>: the rendering of an integer beyond \<open>2 ^ 53\<close>, where the value
    \<open>parseInt\<close> returns is a rounded double;
  \<^item> \<open>nullReadMessage\<close>: the message of the TypeError thrown when a property of
    \<open>null\<close> is read.
\<close>

record runtime =
  JSON_parse :: "string \<Rightarrow> string + json"
  largeNumberText :: "int \<Rightarrow> string"
  nullReadMessage :: "string \<Rightarrow> string"

subsection \<open>\<open>parseInt(s, 10)\<close> and the rendering of its result\<close>

definition isDigit :: "char \<Rightarrow> bool" where
  "isDigit c = (c \<in> set ''0123456789'')"

definition digitValue :: "char \<Rightarrow> nat" where
  "digitValue c = of_char c - 48"

definition digitsValue :: "string \<Rightarrow> nat" where
  "digitsValue z = foldl (\<lambda>acc c. 10 * acc + digitValue c) 0 z"

text \<open>
  \<open>parseInt\<close> with radix 10: skip leading white space, read an optional sign, then the
  longest run of decimal digits; \<open>None\<close> is \<open>NaN\<close> (no digit). The result is the
  mathematical integer.
\<close>

definition parseInt :: "string \<Rightarrow> int option" where
  "parseInt input =
     (let s = dropWhile isWhiteSpace input;
          neg = (s \<noteq> [] \<and> hd s = CHR ''-'');
          s' = (if s \<noteq> [] \<and> (hd s = CHR ''-'' \<or> hd s = CHR ''+'') then tl s else s);
          z = takeWhile isDigit s'
      in if z = [] then None
         else Some (if neg then - int (digitsValue z) else int (digitsValue z)))"

fun natToString :: "nat \<Rightarrow> string" where
  "natToString n =
     (if n < 10 then [''0123456789'' ! n]
      else natToString (n div 10) @ [''0123456789'' ! (n mod 10)])"

declare natToString.simps [simp del]

text \<open>The text a template literal inserts for the number \<open>parseInt\<close> returned.\<close>

definition numberToString :: "runtime \<Rightarrow> int \<Rightarrow> string" where
  "numberToString rt n =
     (if \<bar>n\<bar> \<le> 2 ^ 53
      then (if n < 0 then ''-'' @ natToString (nat (- n)) else natToString (nat n))
      else largeNumberText rt n)"

section \<open>Data model (types.ts)\<close>

datatype SpeechType = NARRATION | ONE_ON_ONE | MULTI

text \<open>
  The fields keep the names of types.ts behind a prefix for their interface
  (\<open>c_\<close> Character, \<open>l_\<close> ScriptLine, \<open>n_\<close> NarrationRequest, \<open>d_\<close> DialogueRequest).
  \<open>duration\<close> is the field the service reads as \<open>string | undefined\<close>.
\<close>

record Character =
  c_id :: string
  c_name :: string
  c_persona :: string
  c_imageTouch :: "string option"

record ScriptLine =
  l_id :: string
  l_characterId :: string
  l_line :: string
  l_emotion :: string
  l_tone :: string

record NarrationRequest =
  n_scenario :: string
  n_persona :: string
  n_emotion :: string
  n_tone :: string
  n_environment :: string
  n_duration :: "string option"

record DialogueRequest =
  d_scenario :: string
  d_characters :: "Character list"
  d_script :: "ScriptLine list"
  d_duration :: "string option"

text \<open>
  \<open>PromptRequest\<close>: the tag \<open>type\<close> is \<open>NARRATION\<close> for the first constructor; the
  second one carries it, \<open>ONE_ON_ONE\<close> or \<open>MULTI\<close>.
\<close>

datatype PromptRequest =
    Narration NarrationRequest
  | Dialogue SpeechType DialogueRequest

section \<open>The request builder (geminiService.ts, generatePrompt, lines 60 to 117)\<close>

definition durationConstraint :: "runtime \<Rightarrow> string option \<Rightarrow> string" where
  \<open>durationConstraint rt duration =
     (case duration of
        None \<Rightarrow> []
      | Some d \<Rightarrow>
          if d = [] then []
          else (case parseInt d of
                  None \<Rightarrow> []
                | Some parsedDuration \<Rightarrow>
                    if parsedDuration > 0
                    then ''\<newline>- The total length should be approximately ''
                         @ numberToString rt parsedDuration @ '' seconds.''
                    else []))\<close>

definition narrationPrompt :: "runtime \<Rightarrow> NarrationRequest \<Rightarrow> string" where
  \<open>narrationPrompt rt r =
     ''\<newline>      Generate a speech prompt for a narration.\<newline>      - Scenario: ''
     @ n_scenario r
     @ ''\<newline>      - Narrator's Persona: '' @ n_persona r
     @ ''\<newline>      - Primary Emotion: '' @ n_emotion r
     @ ''\<newline>      - Vocal Tones: '' @ n_tone r
     @ ''\<newline>      - Environment: '' @ n_environment r
     @ ''\<newline>      The narration should be descriptive, immersive, and set a clear mood based on these details. The environment should influence the tone and description.''
     @ durationConstraint rt (n_duration r)\<close>

definition characterDescriptions :: "Character list \<Rightarrow> string" where
  \<open>characterDescriptions cs =
     join ''\<newline>'' (map (\<lambda>c. ''- '' @ c_name c @ '': '' @ c_persona c) cs)\<close>

definition hasScript :: "DialogueRequest \<Rightarrow> bool" where
  \<open>hasScript r = (d_script r \<noteq> [] \<and> list_ex (\<lambda>l. trim (l_line l) \<noteq> []) (d_script r))\<close>

text \<open>\<open>new Map(entries)\<close>: a later entry replaces an earlier one with the same key.\<close>

definition characterMap :: "Character list \<Rightarrow> string \<rightharpoonup> string" where
  \<open>characterMap cs = map_of (rev (map (\<lambda>c. (c_id c, c_name c)) cs))\<close>

definition scriptEntry :: "Character list \<Rightarrow> ScriptLine \<Rightarrow> string" where
  \<open>scriptEntry cs line =
     (let charName = (case characterMap cs (l_characterId line) of
                        None \<Rightarrow> ''Unknown Character''
                      | Some n \<Rightarrow> orElse n ''Unknown Character'')
      in charName @ '': "'' @ l_line line @ ''" (Emotion: ''
         @ orElse (l_emotion line) ''not specified'' @ '', Tone: ''
         @ orElse (l_tone line) ''not specified'' @ '')'')\<close>

definition scriptContent :: "DialogueRequest \<Rightarrow> string" where
  \<open>scriptContent r =
     join ''\<newline>''
       (map (scriptEntry (d_characters r))
          (filter (\<lambda>line. trim (l_line line) \<noteq> []) (d_script r)))\<close>

text \<open>The template of the branch \<open>if (hasScript)\<close>, lines 99 to 107.\<close>

definition formatPrompt :: "runtime \<Rightarrow> DialogueRequest \<Rightarrow> string" where
  \<open>formatPrompt rt r =
     ''\<newline>          Generate and format a speech prompt for a dialogue based on the user-provided script.\<newline>          - Scenario: ''
     @ d_scenario r
     @ ''\<newline>          - Characters:\<newline>'' @ characterDescriptions (d_characters r)
     @ ''\<newline>          - User-provided Script:\<newline>'' @ scriptContent r
     @ ''\<newline>          \<newline>          Your task is to take the provided script and format it perfectly into the required JSON structure.\<newline>          Refine the emotion and tone descriptions to be more evocative and detailed where appropriate, but strictly adhere to the dialogue lines and character assignments from the script.\<newline>          The 'integrated_text' should be a clean, readable script format of the final dialogue.''
     @ durationConstraint rt (d_duration r)\<close>

text \<open>The template of the branch \<open>else\<close>, lines 109 to 114.\<close>

definition scratchPrompt :: "runtime \<Rightarrow> DialogueRequest \<Rightarrow> string" where
  \<open>scratchPrompt rt r =
     ''\<newline>          Generate a speech prompt for a dialogue.\<newline>          - Scenario: ''
     @ d_scenario r
     @ ''\<newline>          - Characters:\<newline>'' @ characterDescriptions (d_characters r)
     @ ''\<newline>          The dialogue should be dramatic and engaging. Each line in the script must have a specified character, the line of dialogue, a primary emotion, and a specific tone/direction.\<newline>          Generate a complete script from scratch based on the scenario and characters provided.''
     @ durationConstraint rt (d_duration r)\<close>

definition userPrompt :: "runtime \<Rightarrow> PromptRequest \<Rightarrow> string" where
  "userPrompt rt request =
     (case request of
        Narration r \<Rightarrow> narrationPrompt rt r
      | Dialogue ty r \<Rightarrow> if hasScript r then formatPrompt rt r else scratchPrompt rt r)"

section \<open>The model call boundary\<close>

datatype schema = NARRATION_SCHEMA | DIALOGUE_SCHEMA | NARRATOR_DETAILS_SCHEMA

text \<open>The \<open>required\<close> list of each schema object.\<close>

definition required :: "schema \<Rightarrow> string list" where
  "required s =
     (case s of
        NARRATION_SCHEMA \<Rightarrow>
          [''type'', ''scenario'', ''persona'', ''content'', ''emotion'', ''tones'',
           ''environment'', ''integrated_text'']
      | DIALOGUE_SCHEMA \<Rightarrow>
          [''type'', ''scenario'', ''characters'', ''script'', ''integrated_text'']
      | NARRATOR_DETAILS_SCHEMA \<Rightarrow> [''persona'', ''emotion'', ''tone'', ''environment''])"

definition SYSTEM_INSTRUCTION :: string where
  \<open>SYSTEM_INSTRUCTION = ''You are a master scriptwriter for 'cosplay' style voice acting and advanced text-to-speech generation. Your goal is to create vivid, emotionally-rich, and character-driven scenarios. You must generate a detailed prompt based on the user's specifications. The final output must be a single JSON object that strictly adheres to the provided schema. The 'integrated_text' field must be a complete, well-formatted string combining all information into a final, readable script or narration prompt.''\<close>

text \<open>The argument of \<open>ai.models.generateContent\<close>.\<close>

record model_request =
  model :: string
  contents :: string
  systemInstruction :: "string option"
  responseMimeType :: "string option"
  responseSchema :: "schema option"

text \<open>
  What awaiting the call gives: the call throws (an \<open>Error\<close> with its message, or a value
  that is not an instance of \<open>Error\<close>), or it delivers a response whose \<open>text\<close> is a
  string. The boundary itself is a parameter \<open>generateContent\<close> of the functions below.
\<close>

datatype thrown = ErrorInstance string | NotAnError

datatype call_result = Threw thrown | Response string

text \<open>\<open>new Error(message)\<close>, the only kind of error the service throws.\<close>

datatype js_error = Error string

section \<open>The response normalizer (generatePrompt, lines 119 to 143)\<close>

record GeneratedPrompt =
  json :: json
  integrated :: json

text \<open>
  Reading the property \<open>k\<close> of a value that is not \<open>null\<close>, for a name that no
  prototype defines (\<open>integrated_text\<close>, \<open>error\<close>, \<open>message\<close>): an own property of an
  object, and \<open>None\<close> (\<open>undefined\<close>) otherwise.
\<close>

definition Get :: "json \<Rightarrow> string \<Rightarrow> json option" where
  "Get v k = (case v of JObject props \<Rightarrow> map_of props k | _ \<Rightarrow> None)"

fun truthy :: "json \<Rightarrow> bool" where
  "truthy JNull = False"
| "truthy (JBool b) = b"
| "truthy (JNumber s) = (s \<noteq> ''0'')"
| "truthy (JString s) = (s \<noteq> [])"
| "truthy (JArray xs) = True"
| "truthy (JObject props) = True"

definition fallbackText :: string where
  "fallbackText = ''Failed to generate integrated text.''"

text \<open>The \<open>catch\<close> block, lines 137 to 143.\<close>

definition rethrow :: "thrown \<Rightarrow> js_error" where
  "rethrow e =
     (case e of
        ErrorInstance message \<Rightarrow> Error (''Gemini API Error: '' @ message)
      | NotAnError \<Rightarrow> Error ''An unknown error occurred while contacting the Gemini API.'')"

definition modelRequest :: "runtime \<Rightarrow> PromptRequest \<Rightarrow> model_request" where
  "modelRequest rt request =
     \<lparr>model = ''gemini-2.5-pro'',
      contents = userPrompt rt request,
      systemInstruction = Some SYSTEM_INSTRUCTION,
      responseMimeType = Some ''application/json'',
      responseSchema =
        Some (case request of Narration r \<Rightarrow> NARRATION_SCHEMA | Dialogue ty r \<Rightarrow> DIALOGUE_SCHEMA)\<rparr>"

text \<open>
  \<open>generatePrompt\<close>: \<open>Inl\<close> is the error thrown, \<open>Inr\<close> the value returned. The
  SyntaxError of \<open>JSON.parse\<close> and the TypeError of reading \<open>integrated_text\<close> of
  \<open>null\<close> are instances of \<open>Error\<close> thrown inside the \<open>try\<close>.
\<close>

definition generatePrompt ::
  "runtime \<Rightarrow> (model_request \<Rightarrow> call_result) \<Rightarrow> PromptRequest \<Rightarrow> js_error + GeneratedPrompt" where
  "generatePrompt rt generateContent request =
     (case generateContent (modelRequest rt request) of
        Threw e \<Rightarrow> Inl (rethrow e)
      | Response text \<Rightarrow>
          (case JSON_parse rt (trim text) of
             Inl diagnostic \<Rightarrow> Inl (rethrow (ErrorInstance diagnostic))
           | Inr parsedJson \<Rightarrow>
               (case parsedJson of
                  JNull \<Rightarrow> Inl (rethrow (ErrorInstance (nullReadMessage rt ''integrated_text'')))
                | _ \<Rightarrow>
                    Inr \<lparr>json = parsedJson,
                         integrated =
                           (case Get parsedJson ''integrated_text'' of
                              None \<Rightarrow> JString fallbackText
                            | Some v \<Rightarrow> if truthy v then v else JString fallbackText)\<rparr>)))"

section \<open>The narrator-details helper (generateNarratorDetailsSuggestion, lines 174 to 201)\<close>

text \<open>
  The localized request text of lines 176 to 184 is the argument \<open>prompt\<close>. The value
  returned is whatever \<open>JSON.parse\<close> gave.
\<close>

definition narratorDetailsRequest :: "string \<Rightarrow> model_request" where
  "narratorDetailsRequest prompt =
     \<lparr>model = ''gemini-2.5-pro'', contents = prompt, systemInstruction = None,
      responseMimeType = Some ''application/json'',
      responseSchema = Some NARRATOR_DETAILS_SCHEMA\<rparr>"

definition generateNarratorDetailsSuggestion ::
  "runtime \<Rightarrow> (model_request \<Rightarrow> call_result) \<Rightarrow> string \<Rightarrow> js_error + json" where
  "generateNarratorDetailsSuggestion rt generateContent prompt =
     (case generateContent (narratorDetailsRequest prompt) of
        Threw e \<Rightarrow> Inl (Error ''Failed to generate narrator details.'')
      | Response text \<Rightarrow>
          (case JSON_parse rt (trim text) of
             Inl diagnostic \<Rightarrow> Inl (Error ''Failed to generate narrator details.'')
           | Inr parsed \<Rightarrow> Inr parsed))"

section \<open>The form (AppContent)\<close>

text \<open>The entries of the localization table \<open>T\<close> that the handlers read.\<close>

record ui_text =
  errorCharacterNeeded :: string
  errorUnexpected :: string
  geminiErrorPrefix :: string

record AppState =
  speechType :: SpeechType
  scenario :: string
  duration :: string
  persona :: string
  emotion :: string
  tone :: string
  environment :: string
  characters :: "Character list"
  script :: "ScriptLine list"
  generatedPrompt :: "GeneratedPrompt option"
  isLoading :: bool
  error :: "string option"

definition handleRemoveCharacter :: "string \<Rightarrow> AppState \<Rightarrow> AppState" where
  "handleRemoveCharacter cid st =
     st\<lparr>characters := filter (\<lambda>c. c_id c \<noteq> cid) (characters st),
        script := map (\<lambda>l. if l_characterId l = cid then l\<lparr>l_characterId := []\<rparr> else l)
                    (script st)\<rparr>"

text \<open>
  The invariant on references: the character a script line names, unless it is the
  empty string (unassigned), is the \<open>id\<close> of a current character.
\<close>

definition refsExist :: "AppState \<Rightarrow> bool" where
  "refsExist st =
     (\<forall>l\<in>set (script st).
        l_characterId l \<noteq> [] \<longrightarrow> l_characterId l \<in> c_id ` set (characters st))"

text \<open>
  The request \<open>handleSubmit\<close> builds (lines 94 to 105 of the form); \<open>None\<close> when the
  handler returns early because no character has a name and a persona.
\<close>

definition submitRequest :: "AppState \<Rightarrow> PromptRequest option" where
  "submitRequest st =
     (if speechType st = NARRATION
      then Some (Narration
             \<lparr>n_scenario = scenario st, n_persona = persona st, n_emotion = emotion st,
              n_tone = tone st, n_environment = environment st,
              n_duration = Some (duration st)\<rparr>)
      else
        (let finalCharacters =
               filter (\<lambda>c. trim (c_name c) \<noteq> [] \<and> trim (c_persona c) \<noteq> []) (characters st)
         in if finalCharacters = [] then None
            else Some (Dialogue (speechType st)
                   \<lparr>d_scenario = scenario st, d_characters = finalCharacters,
                    d_script = filter (\<lambda>l. trim (l_line l) \<noteq> [] \<and> l_characterId l \<noteq> [])
                                 (script st),
                    d_duration = Some (duration st)\<rparr>)))"

text \<open>
  \<open>handleSubmit\<close>: the state once the handler has finished, and the requests it sent to
  the model boundary, in order.
\<close>

definition handleSubmit ::
  "ui_text \<Rightarrow> runtime \<Rightarrow> (model_request \<Rightarrow> call_result) \<Rightarrow> AppState
     \<Rightarrow> AppState \<times> model_request list" where
  "handleSubmit T rt generateContent st =
     (let st1 = st\<lparr>isLoading := True, error := None, generatedPrompt := None\<rparr>
      in case submitRequest st of
           None \<Rightarrow> (st1\<lparr>error := Some (errorCharacterNeeded T), isLoading := False\<rparr>, [])
         | Some request \<Rightarrow>
             (case generatePrompt rt generateContent request of
                Inr result \<Rightarrow>
                  (st1\<lparr>generatedPrompt := Some result, isLoading := False\<rparr>,
                   [modelRequest rt request])
              | Inl (Error message) \<Rightarrow>
                  (st1\<lparr>error := Some (orElse message (errorUnexpected T)), isLoading := False\<rparr>,
                   [modelRequest rt request])))"

subsection \<open>prettyErrorMessage\<close>

text \<open>\<open>v?.k\<close>: \<open>undefined\<close> when \<open>v\<close> is \<open>undefined\<close> or \<open>null\<close>.\<close>

definition optGet :: "json option \<Rightarrow> string \<Rightarrow> json option" where
  "optGet v k = (case v of None \<Rightarrow> None | Some JNull \<Rightarrow> None | Some x \<Rightarrow> Get x k)"

text \<open>
  The string a template literal inserts for a parsed value; \<open>None\<close> when the conversion
  throws a TypeError (an object with an own property \<open>toString\<close>, which is not callable).
  An array joins its elements with commas, \<open>null\<close> giving the empty string.
\<close>

fun ToString :: "json \<Rightarrow> string option" where
  "ToString JNull = Some ''null''"
| "ToString (JBool b) = Some (if b then ''true'' else ''false'')"
| "ToString (JNumber s) = Some s"
| "ToString (JString s) = Some s"
| "ToString (JArray xs) =
     (let parts = map (\<lambda>x. if x = JNull then Some [] else ToString x) xs
      in if None \<in> set parts then None else Some (join '','' (map the parts)))"
| "ToString (JObject props) =
     (if map_of props ''toString'' \<noteq> None then None else Some ''[object Object]'')"

definition prettyErrorMessage :: "ui_text \<Rightarrow> runtime \<Rightarrow> string option \<Rightarrow> string option" where
  "prettyErrorMessage T rt err =
     (case err of
        None \<Rightarrow> None
      | Some e \<Rightarrow>
          if e = [] then None
          else if prefix ''Gemini API Error: '' e
          then (let jsonPart = drop (length ''Gemini API Error: '') e
                in case JSON_parse rt jsonPart of
                     Inl diagnostic \<Rightarrow> Some (geminiErrorPrefix T @ '': '' @ jsonPart)
                   | Inr parsed \<Rightarrow>
                       (case optGet (optGet (Some parsed) ''error'') ''message'' of
                          None \<Rightarrow> Some e
                        | Some m \<Rightarrow>
                            if truthy m
                            then (case ToString m of
                                    None \<Rightarrow> Some (geminiErrorPrefix T @ '': '' @ jsonPart)
                                  | Some s \<Rightarrow> Some (geminiErrorPrefix T @ '': '' @ s))
                            else Some e))
          else Some e)"

section \<open>Sample inputs\<close>

text \<open>
  A runtime for the examples: its \<open>JSON.parse\<close> rejects the empty text with the
  diagnostic of V8, knows the texts listed here, and rejects every other text with a
  placeholder diagnostic, used only where the outcome does not depend on the diagnostic.
  No example has a number beyond \<open>2 ^ 53\<close>.
\<close>

definition sampleParse :: "string \<Rightarrow> string + json" where
  \<open>sampleParse s =
     (if s = [] then Inl ''Unexpected end of JSON input''
      else case map_of
             [(''null'', JNull),
              (''{}'', JObject []),
              (''{"type":"dialogue"}'', JObject [(''type'', JString ''dialogue'')]),
              (''{"integrated_text":""}'', JObject [(''integrated_text'', JString [])]),
              (''{"error":{"message":"quota exceeded"}}'',
                 JObject [(''error'', JObject [(''message'', JString ''quota exceeded'')])]),
              (''{"error":{"message":""}}'',
                 JObject [(''error'', JObject [(''message'', JString [])])])] s of
             Some v \<Rightarrow> Inr v
           | None \<Rightarrow> Inl ''Unexpected token'')\<close>

definition sampleRuntime :: runtime where
  \<open>sampleRuntime =
     \<lparr>JSON_parse = sampleParse,
      largeNumberText = natToString \<circ> nat,
      nullReadMessage =
        (\<lambda>k. ''Cannot read properties of null (reading '' @ [CHR 0x27] @ k @ [CHR 0x27] @ '')'')\<rparr>\<close>

text \<open>Requests and forms.\<close>

definition stormyNight :: NarrationRequest where
  "stormyNight =
     \<lparr>n_scenario = ''A stormy night at sea'', n_persona = ''weary sailor'',
      n_emotion = ''dread'', n_tone = ''hushed'', n_environment = ''ship deck'',
      n_duration = Some ''30''\<rparr>"

definition alice :: Character where
  "alice = \<lparr>c_id = ''char-a'', c_name = ''Alice'', c_persona = ''a tired detective'',
            c_imageTouch = Some []\<rparr>"

definition bob :: Character where
  "bob = \<lparr>c_id = ''char-b'', c_name = ''Bob'', c_persona = ''a nervous witness'',
          c_imageTouch = Some []\<rparr>"

definition unassignedLine :: ScriptLine where
  "unassignedLine = \<lparr>l_id = ''line-1'', l_characterId = [], l_line = ''Hi'',
                     l_emotion = [], l_tone = []\<rparr>"

definition aliceLine :: ScriptLine where
  "aliceLine = \<lparr>l_id = ''line-2'', l_characterId = ''char-a'', l_line = ''Where were you?'',
                l_emotion = ''suspicious'', l_tone = []\<rparr>"

definition blankLine :: ScriptLine where
  "blankLine = \<lparr>l_id = ''line-3'', l_characterId = ''char-b'', l_line = ''  '',
                l_emotion = ''afraid'', l_tone = ''whisper''\<rparr>"

definition dialogueOf :: "ScriptLine list \<Rightarrow> DialogueRequest" where
  "dialogueOf ls = \<lparr>d_scenario = ''An interrogation room'', d_characters = [alice, bob],
                    d_script = ls, d_duration = None\<rparr>"

definition formState :: "ScriptLine list \<Rightarrow> AppState" where
  "formState ls =
     \<lparr>speechType = ONE_ON_ONE, scenario = ''An interrogation room'', duration = [],
      persona = [], emotion = [], tone = [], environment = [],
      characters = [alice, bob], script = ls, generatedPrompt = None, isLoading = False,
      error = None\<rparr>"

text \<open>Two boundaries: one that answers every request with a text, one that throws.\<close>

definition respondsWith :: "string \<Rightarrow> model_request \<Rightarrow> call_result" where
  "respondsWith text request = Response text"

definition rejectsWith :: "thrown \<Rightarrow> model_request \<Rightarrow> call_result" where
  "rejectsWith e request = Threw e"

definition sampleText :: ui_text where
  "sampleText =
     \<lparr>errorCharacterNeeded = ''Please add at least one character.'',
      errorUnexpected = ''An unexpected error occurred.'',
      geminiErrorPrefix = ''Gemini API error''\<rparr>"

definition blankCharacter :: "string \<Rightarrow> Character" where
  "blankCharacter i = \<lparr>c_id = i, c_name = [], c_persona = [], c_imageTouch = Some []\<rparr>"

definition freshDialogueForm :: AppState where
  "freshDialogueForm =
     \<lparr>speechType = MULTI, scenario = ''An interrogation room'', duration = [],
      persona = [], emotion = [], tone = [], environment = [],
      characters = [blankCharacter ''char-1'', (blankCharacter ''char-2'') \<lparr>c_name := ''Bob''\<rparr>],
      script = [unassignedLine], generatedPrompt = None, isLoading = False, error = None\<rparr>"

section \<open>Properties\<close>

subsection \<open>Shared lemmas\<close>








lemma hasScript_iff: "hasScript r \<longleftrightarrow> (\<exists>l\<in>set (d_script r). trim (l_line l) \<noteq> [])"
  by (auto simp: hasScript_def list_ex_iff)

lemma sublist_behind: "sublist x ys \<Longrightarrow> sublist x (ps @ ys)"
  unfolding sublist_def by (metis append.assoc)

lemma sublist_before: "sublist x ys \<Longrightarrow> sublist x (ys @ ss)"
  unfolding sublist_def by (metis append.assoc)

lemma sublist_join: "x \<in> set xs \<Longrightarrow> sublist x (join sep xs)"
proof (induction sep xs rule: join.induct)
  case (1 sep)
  then show ?case by simp
next
  case (2 sep y)
  then show ?case by simp
next
  case (3 sep y z zs)
  show ?case
  proof (cases "x = y")
    case True
    then show ?thesis by simp
  next
    case False
    with 3 have "sublist x (join sep (z # zs))" by simp
    then have "sublist x ((y @ sep) @ join sep (z # zs))" by (rule sublist_behind)
    then show ?thesis by simp
  qed
qed



lemma formatPrompt_neq_scratchPrompt: "formatPrompt rt r \<noteq> scratchPrompt rt' r'"
  by (simp add: formatPrompt_def scratchPrompt_def)

text \<open>What the sample runtime answers on texts that several properties use.\<close>

lemma trim_not_json: "trim ''not json'' = ''not json''"
  by (simp add: trim_def isWhiteSpace_def)

lemma sampleParse_not_json: "JSON_parse sampleRuntime ''not json'' = Inl ''Unexpected token''"
  by (simp add: sampleRuntime_def sampleParse_def)

lemma sampleParse_quota:
  \<open>JSON_parse sampleRuntime ''{"error":{"message":"quota exceeded"}}''
     = Inr (JObject [(''error'', JObject [(''message'', JString ''quota exceeded'')])])\<close>
  by (simp add: sampleRuntime_def sampleParse_def)

lemma trim_null: "trim ''null'' = ''null''"
  by (simp add: trim_def isWhiteSpace_def)

lemma sampleParse_null: "JSON_parse sampleRuntime ''null'' = Inr JNull"
  by (simp add: sampleRuntime_def sampleParse_def)

lemma trim_braces: "trim ''{}'' = ''{}''"
  by (simp add: trim_def isWhiteSpace_def)

lemma sampleParse_braces: "JSON_parse sampleRuntime ''{}'' = Inr (JObject [])"
  by (simp add: sampleRuntime_def sampleParse_def)

subsection \<open>C3: the duration clause of a narration\<close>







lemma trim_Hi: "trim ''Hi'' = ''Hi''"
  by (simp add: trim_def isWhiteSpace_def)

subsection \<open>C1: the sub-mode of a dialogue request\<close>

text \<open>
  C1 fails as stated: the only line of this request has no character assigned, so every
  line is "empty or unassigned", and yet the builder takes the format-existing-script
  branch and labels the line \<open>Unknown Character\<close>.
\<close>

theorem unassigned_line_counterexample:
  \<open>l_characterId unassignedLine = []
   \<and> hasScript (dialogueOf [unassignedLine])
   \<and> userPrompt sampleRuntime (Dialogue MULTI (dialogueOf [unassignedLine]))
       = formatPrompt sampleRuntime (dialogueOf [unassignedLine])
   \<and> userPrompt sampleRuntime (Dialogue MULTI (dialogueOf [unassignedLine]))
       \<noteq> scratchPrompt sampleRuntime (dialogueOf [unassignedLine])
   \<and> scriptContent (dialogueOf [unassignedLine])
       = ''Unknown Character: "Hi" (Emotion: not specified, Tone: not specified)''\<close>
  by (simp add: userPrompt_def hasScript_def dialogueOf_def unassignedLine_def trim_Hi
      formatPrompt_neq_scratchPrompt scriptContent_def scriptEntry_def characterMap_def
      alice_def bob_def orElse_def)

lemma submitRequest_script:
  assumes "submitRequest st = Some (Dialogue ty r)"
  shows "d_script r = filter (\<lambda>l. trim (l_line l) \<noteq> [] \<and> l_characterId l \<noteq> []) (script st)"
  using assms by (auto simp: submitRequest_def Let_def split: if_splits)

lemma submitRequest_hasScript:
  assumes "submitRequest st = Some (Dialogue ty r)"
  shows "hasScript r \<longleftrightarrow> (\<exists>l\<in>set (script st). trim (l_line l) \<noteq> [] \<and> l_characterId l \<noteq> [])"
  using submitRequest_script [OF assms] by (auto simp: hasScript_iff)

text \<open>
  C1, amended. The builder decides on the text of the lines alone: when every script line
  of the request is blank (empty once trimmed) the instruction text is the
  generate-from-scratch template, and when some line is not blank it is the
  format-existing-script template, whether or not that line has a character; the two
  templates never coincide. For a request built by \<open>handleSubmit\<close>, which drops the lines
  that are blank or unassigned, the sub-mode is generate-from-scratch when every line of
  the form is blank or unassigned, and format-existing-script when some line of the form
  is neither.
\<close>

theorem dialogue_submode_selection:
  "((\<forall>l\<in>set (d_script r). trim (l_line l) = []) \<longrightarrow>
      \<not> hasScript r \<and> userPrompt rt (Dialogue ty r) = scratchPrompt rt r)
   \<and> ((\<exists>l\<in>set (d_script r). trim (l_line l) \<noteq> []) \<longrightarrow>
      hasScript r \<and> userPrompt rt (Dialogue ty r) = formatPrompt rt r)
   \<and> formatPrompt rt r \<noteq> scratchPrompt rt r
   \<and> (submitRequest st = Some (Dialogue ty' r')
        \<and> (\<forall>l\<in>set (script st). trim (l_line l) = [] \<or> l_characterId l = []) \<longrightarrow>
      userPrompt rt (Dialogue ty' r') = scratchPrompt rt r')
   \<and> (submitRequest st = Some (Dialogue ty' r')
        \<and> (\<exists>l\<in>set (script st). trim (l_line l) \<noteq> [] \<and> l_characterId l \<noteq> []) \<longrightarrow>
      userPrompt rt (Dialogue ty' r') = formatPrompt rt r')"
proof (intro conjI impI)
  assume "\<forall>l\<in>set (d_script r). trim (l_line l) = []"
  then show n: "\<not> hasScript r" by (simp add: hasScript_iff)
  then show "userPrompt rt (Dialogue ty r) = scratchPrompt rt r"
    by (simp add: userPrompt_def)
next
  assume "\<exists>l\<in>set (d_script r). trim (l_line l) \<noteq> []"
  then show y: "hasScript r" by (simp add: hasScript_iff)
  then show "userPrompt rt (Dialogue ty r) = formatPrompt rt r"
    by (simp add: userPrompt_def)
next
  show "formatPrompt rt r \<noteq> scratchPrompt rt r"
    by (rule formatPrompt_neq_scratchPrompt)
next
  assume "submitRequest st = Some (Dialogue ty' r')
        \<and> (\<forall>l\<in>set (script st). trim (l_line l) = [] \<or> l_characterId l = [])"
  then have "\<not> hasScript r'" using submitRequest_hasScript by blast
  then show "userPrompt rt (Dialogue ty' r') = scratchPrompt rt r'"
    by (simp add: userPrompt_def)
next
  assume "submitRequest st = Some (Dialogue ty' r')
        \<and> (\<exists>l\<in>set (script st). trim (l_line l) \<noteq> [] \<and> l_characterId l \<noteq> [])"
  then have "hasScript r'" using submitRequest_hasScript by blast
  then show "userPrompt rt (Dialogue ty' r') = formatPrompt rt r'"
    by (simp add: userPrompt_def)
qed

lemma trim_where: "trim ''Where were you?'' = ''Where were you?''"
  by (simp add: trim_def isWhiteSpace_def)

lemma trim_blank: "trim ''  '' = []"
  by (simp add: trim_def isWhiteSpace_def)

lemma trim_names:
  "trim ''Alice'' = ''Alice''" "trim ''a tired detective'' = ''a tired detective''"
  "trim ''Bob'' = ''Bob''" "trim ''a nervous witness'' = ''a nervous witness''"
  by (simp_all add: trim_def isWhiteSpace_def)

lemma submitRequest_formState:
  "submitRequest (formState ls) =
     Some (Dialogue ONE_ON_ONE
        \<lparr>d_scenario = ''An interrogation room'', d_characters = [alice, bob],
         d_script = filter (\<lambda>l. trim (l_line l) \<noteq> [] \<and> l_characterId l \<noteq> []) ls,
         d_duration = Some []\<rparr>)"
  by (simp add: submitRequest_def formState_def alice_def bob_def trim_names)

text \<open>
  One request and one form for each of the four cases.
\<close>

theorem dialogue_submode_selection_witness:
  "userPrompt sampleRuntime (Dialogue ONE_ON_ONE (dialogueOf [blankLine]))
     = scratchPrompt sampleRuntime (dialogueOf [blankLine])
   \<and> userPrompt sampleRuntime (Dialogue ONE_ON_ONE (dialogueOf [blankLine, aliceLine]))
     = formatPrompt sampleRuntime (dialogueOf [blankLine, aliceLine])
   \<and> userPrompt sampleRuntime
        (Dialogue ONE_ON_ONE ((dialogueOf []) \<lparr>d_duration := Some []\<rparr>))
     = scratchPrompt sampleRuntime ((dialogueOf []) \<lparr>d_duration := Some []\<rparr>)
   \<and> userPrompt sampleRuntime
        (Dialogue ONE_ON_ONE ((dialogueOf [aliceLine]) \<lparr>d_duration := Some []\<rparr>))
     = formatPrompt sampleRuntime ((dialogueOf [aliceLine]) \<lparr>d_duration := Some []\<rparr>)"
proof (intro conjI)
  have "\<forall>l\<in>set (d_script (dialogueOf [blankLine])). trim (l_line l) = []"
    by (simp add: dialogueOf_def blankLine_def trim_blank)
  with dialogue_submode_selection [of "dialogueOf [blankLine]" sampleRuntime ONE_ON_ONE]
  show "userPrompt sampleRuntime (Dialogue ONE_ON_ONE (dialogueOf [blankLine]))
     = scratchPrompt sampleRuntime (dialogueOf [blankLine])"
    by blast
next
  have "\<exists>l\<in>set (d_script (dialogueOf [blankLine, aliceLine])). trim (l_line l) \<noteq> []"
    by (simp add: dialogueOf_def aliceLine_def trim_where)
  with dialogue_submode_selection [of "dialogueOf [blankLine, aliceLine]" sampleRuntime ONE_ON_ONE]
  show "userPrompt sampleRuntime (Dialogue ONE_ON_ONE (dialogueOf [blankLine, aliceLine]))
     = formatPrompt sampleRuntime (dialogueOf [blankLine, aliceLine])"
    by blast
next
  let ?st = "formState [unassignedLine, blankLine]"
  let ?r = "(dialogueOf []) \<lparr>d_duration := Some []\<rparr>"
  have "submitRequest ?st = Some (Dialogue ONE_ON_ONE ?r)
        \<and> (\<forall>l\<in>set (script ?st). trim (l_line l) = [] \<or> l_characterId l = [])"
    by (simp add: submitRequest_formState dialogueOf_def)
      (simp add: formState_def unassignedLine_def blankLine_def trim_blank)
  with dialogue_submode_selection [of _ sampleRuntime _ ?st ONE_ON_ONE ?r]
  show "userPrompt sampleRuntime (Dialogue ONE_ON_ONE ?r) = scratchPrompt sampleRuntime ?r"
    by blast
next
  let ?st = "formState [unassignedLine, aliceLine, blankLine]"
  let ?r = "(dialogueOf [aliceLine]) \<lparr>d_duration := Some []\<rparr>"
  have "submitRequest ?st = Some (Dialogue ONE_ON_ONE ?r)
        \<and> (\<exists>l\<in>set (script ?st). trim (l_line l) \<noteq> [] \<and> l_characterId l \<noteq> [])"
    by (simp add: submitRequest_formState dialogueOf_def)
      (simp add: formState_def unassignedLine_def blankLine_def aliceLine_def trim_blank
        trim_where trim_Hi)
  with dialogue_submode_selection [of _ sampleRuntime _ ?st ONE_ON_ONE ?r]
  show "userPrompt sampleRuntime (Dialogue ONE_ON_ONE ?r) = formatPrompt sampleRuntime ?r"
    by blast
qed

subsection \<open>C2: the lines embedded in format-existing-script mode\<close>

lemma sublist_scriptContent:
  assumes "l \<in> set (d_script r)" and "trim (l_line l) \<noteq> []"
  shows "sublist (scriptEntry (d_characters r) l) (scriptContent r)"
  unfolding scriptContent_def using assms by (intro sublist_join) simp

lemma sublist_formatPrompt:
  assumes "sublist x (scriptContent r)"
  shows "sublist x (formatPrompt rt r)"
  unfolding formatPrompt_def
  apply (rule sublist_behind)
  apply (rule sublist_behind)
  apply (rule sublist_behind)
  apply (rule sublist_behind)
  apply (rule sublist_behind)
  apply (rule sublist_before)
  apply (rule assms)
  done

text \<open>
  C2, amended. In format-existing-script mode every script line whose text is not blank
  (not empty once trimmed) appears in the instruction text as its entry: the name of its
  character, then the exact line text between double quotes, then its emotion and its
  tone, each replaced by \<open>not specified\<close> when empty.
\<close>

theorem format_mode_keeps_lines:
  \<open>hasScript r \<Longrightarrow> l \<in> set (d_script r) \<Longrightarrow> trim (l_line l) \<noteq> [] \<Longrightarrow>
     userPrompt rt (Dialogue ty r) = formatPrompt rt r
     \<and> sublist (scriptEntry (d_characters r) l) (userPrompt rt (Dialogue ty r))
     \<and> sublist (''"'' @ l_line l @ ''" (Emotion: '' @ orElse (l_emotion l) ''not specified''
                  @ '', Tone: '' @ orElse (l_tone l) ''not specified'' @ '')'')
          (scriptEntry (d_characters r) l)\<close>
proof (intro conjI)
  assume h: "hasScript r" and l: "l \<in> set (d_script r)" and t: "trim (l_line l) \<noteq> []"
  from h show u: "userPrompt rt (Dialogue ty r) = formatPrompt rt r"
    by (simp add: userPrompt_def)
  from l t have "sublist (scriptEntry (d_characters r) l) (scriptContent r)"
    by (rule sublist_scriptContent)
  then have "sublist (scriptEntry (d_characters r) l) (formatPrompt rt r)"
    by (rule sublist_formatPrompt)
  with u show "sublist (scriptEntry (d_characters r) l) (userPrompt rt (Dialogue ty r))"
    by simp
  show \<open>sublist (''"'' @ l_line l @ ''" (Emotion: '' @ orElse (l_emotion l) ''not specified''
                  @ '', Tone: '' @ orElse (l_tone l) ''not specified'' @ '')'')
          (scriptEntry (d_characters r) l)\<close>
    unfolding scriptEntry_def Let_def
    apply (rule sublist_behind)
    apply (simp add: sublist_Cons_right)
    done
qed

lemma aliceEntry:
  \<open>scriptEntry [alice, bob] aliceLine
     = ''Alice: "Where were you?" (Emotion: suspicious, Tone: not specified)''\<close>
  by (simp add: scriptEntry_def characterMap_def alice_def bob_def aliceLine_def orElse_def)

theorem format_mode_keeps_lines_witness:
  \<open>sublist ''Alice: "Where were you?" (Emotion: suspicious, Tone: not specified)''
     (userPrompt sampleRuntime (Dialogue ONE_ON_ONE (dialogueOf [blankLine, aliceLine])))\<close>
proof -
  let ?r = "dialogueOf [blankLine, aliceLine]"
  have h: "hasScript ?r"
    by (simp add: hasScript_def dialogueOf_def aliceLine_def trim_where)
  have l: "aliceLine \<in> set (d_script ?r)"
    by (simp add: dialogueOf_def)
  have t: "trim (l_line aliceLine) \<noteq> []"
    by (simp add: aliceLine_def trim_where)
  from format_mode_keeps_lines [OF h l t, of sampleRuntime ONE_ON_ONE]
  have "sublist (scriptEntry (d_characters ?r) aliceLine)
          (userPrompt sampleRuntime (Dialogue ONE_ON_ONE ?r))"
    by blast
  moreover have "d_characters ?r = [alice, bob]"
    by (simp add: dialogueOf_def)
  ultimately show ?thesis
    by (simp add: aliceEntry)
qed

text \<open>
  C2 fails as stated: the first line of this request has the non-empty text of two
  spaces; the request is processed in format-existing-script mode, and the quoted line is
  nowhere in the instruction text, whose script part holds the other line only.
\<close>

theorem whitespace_line_counterexample:
  \<open>hasScript (dialogueOf [blankLine, aliceLine])
   \<and> l_line blankLine = ''  ''
   \<and> userPrompt sampleRuntime (Dialogue ONE_ON_ONE (dialogueOf [blankLine, aliceLine]))
       = formatPrompt sampleRuntime (dialogueOf [blankLine, aliceLine])
   \<and> scriptContent (dialogueOf [blankLine, aliceLine])
       = ''Alice: "Where were you?" (Emotion: suspicious, Tone: not specified)''
   \<and> \<not> sublist ''"  "''
         (userPrompt sampleRuntime (Dialogue ONE_ON_ONE (dialogueOf [blankLine, aliceLine])))\<close>
proof (intro conjI)
  show h: "hasScript (dialogueOf [blankLine, aliceLine])"
    by (simp add: hasScript_def dialogueOf_def aliceLine_def trim_where)
  show "l_line blankLine = ''  ''"
    by (simp add: blankLine_def)
  from h show "userPrompt sampleRuntime (Dialogue ONE_ON_ONE (dialogueOf [blankLine, aliceLine]))
       = formatPrompt sampleRuntime (dialogueOf [blankLine, aliceLine])"
    by (simp add: userPrompt_def)
  show \<open>scriptContent (dialogueOf [blankLine, aliceLine])
       = ''Alice: "Where were you?" (Emotion: suspicious, Tone: not specified)''\<close>
    by (simp add: scriptContent_def dialogueOf_def blankLine_def trim_blank trim_where aliceEntry)
      (simp add: aliceLine_def trim_where aliceEntry [unfolded aliceLine_def])
  show \<open>\<not> sublist ''"  "''
         (userPrompt sampleRuntime (Dialogue ONE_ON_ONE (dialogueOf [blankLine, aliceLine])))\<close>
    by code_simp
qed

subsection \<open>C4: errors of the main generation path\<close>






subsection \<open>C5: a dialogue submission needs a character\<close>

text \<open>
  C5. When the form is in a dialogue mode and no character has both a name and a persona
  that are non-empty once trimmed, \<open>handleSubmit\<close> builds no request, sends nothing to the
  model boundary, and leaves the form with the message \<open>errorCharacterNeeded\<close>, not
  loading and without a result; the outcome does not depend on the runtime or on the
  boundary.
\<close>

theorem submit_without_character_rejected:
  "speechType st \<noteq> NARRATION \<Longrightarrow>
   \<not> (\<exists>c\<in>set (characters st). trim (c_name c) \<noteq> [] \<and> trim (c_persona c) \<noteq> []) \<Longrightarrow>
     submitRequest st = None
     \<and> handleSubmit T rt generateContent st
         = (st\<lparr>isLoading := False, error := Some (errorCharacterNeeded T),
               generatedPrompt := None\<rparr>, [])"
proof -
  assume d: "speechType st \<noteq> NARRATION"
    and n: "\<not> (\<exists>c\<in>set (characters st). trim (c_name c) \<noteq> [] \<and> trim (c_persona c) \<noteq> [])"
  from n have "filter (\<lambda>c. trim (c_name c) \<noteq> [] \<and> trim (c_persona c) \<noteq> []) (characters st) = []"
    by (simp add: filter_empty_conv)
  with d have s: "submitRequest st = None"
    by (simp add: submitRequest_def)
  then show ?thesis
    by (simp add: handleSubmit_def)
qed

text \<open>
  A form with one blank character and one character that has a name but no persona.
\<close>

theorem submit_without_character_rejected_witness:
  "handleSubmit sampleText sampleRuntime (respondsWith ''{}'') freshDialogueForm
     = (freshDialogueForm\<lparr>error := Some ''Please add at least one character.''\<rparr>, [])"
proof -
  have d: "speechType freshDialogueForm \<noteq> NARRATION"
    by (simp add: freshDialogueForm_def)
  have n: "\<not> (\<exists>c\<in>set (characters freshDialogueForm).
               trim (c_name c) \<noteq> [] \<and> trim (c_persona c) \<noteq> [])"
    by (simp add: freshDialogueForm_def blankCharacter_def trim_def)
  from submit_without_character_rejected [OF d n, of sampleText sampleRuntime "respondsWith ''{}''"]
  show ?thesis
    by (simp add: sampleText_def freshDialogueForm_def)
qed

subsection \<open>C6: a response without \<open>integrated_text\<close>\<close>

text \<open>
  C6 fails as stated: the response \<open>null\<close> parses, has no field \<open>integrated_text\<close>, and
  \<open>generatePrompt\<close> fails on it, since reading a property of \<open>null\<close> throws inside the
  \<open>try\<close>.
\<close>

theorem null_response_counterexample:
  "JSON_parse sampleRuntime (trim ''null'') = Inr JNull
   \<and> generatePrompt sampleRuntime (respondsWith ''null'') (Dialogue MULTI (dialogueOf []))
       = Inl (Error (''Gemini API Error: Cannot read properties of null (reading ''
                      @ [CHR 0x27] @ ''integrated_text'' @ [CHR 0x27] @ '')''))"
  by (simp add: generatePrompt_def respondsWith_def trim_null sampleParse_null rethrow_def)
    (simp add: sampleRuntime_def)

text \<open>
  C6, amended. When the trimmed response text parses to a value other than \<open>null\<close> that
  has no property \<open>integrated_text\<close>, \<open>generatePrompt\<close> returns a result whose \<open>json\<close> is
  the parsed value and whose \<open>integrated\<close> is the fallback string.
\<close>

theorem missing_integrated_text_falls_back:
  "generateContent (modelRequest rt request) = Response text \<Longrightarrow>
   JSON_parse rt (trim text) = Inr parsed \<Longrightarrow>
   parsed \<noteq> JNull \<Longrightarrow>
   Get parsed ''integrated_text'' = None \<Longrightarrow>
     generatePrompt rt generateContent request
       = Inr \<lparr>json = parsed, integrated = JString ''Failed to generate integrated text.''\<rparr>"
proof -
  assume call: "generateContent (modelRequest rt request) = Response text"
    and parse: "JSON_parse rt (trim text) = Inr parsed"
    and not_null: "parsed \<noteq> JNull"
    and absent: "Get parsed ''integrated_text'' = None"
  from not_null absent
  have "(case parsed of
           JNull \<Rightarrow> Inl (rethrow (ErrorInstance (nullReadMessage rt ''integrated_text'')))
         | _ \<Rightarrow>
             Inr \<lparr>json = parsed,
                  integrated =
                    (case Get parsed ''integrated_text'' of
                       None \<Rightarrow> JString fallbackText
                     | Some v \<Rightarrow> if truthy v then v else JString fallbackText)\<rparr>)
        = Inr \<lparr>json = parsed, integrated = JString fallbackText\<rparr>"
    by (cases parsed) simp_all
  with call parse show ?thesis
    by (simp add: generatePrompt_def fallbackText_def)
qed

lemma trim_dialogue_only: \<open>trim ''{"type":"dialogue"}'' = ''{"type":"dialogue"}''\<close>
  by (simp add: trim_def isWhiteSpace_def)

lemma sampleParse_dialogue_only:
  \<open>JSON_parse sampleRuntime ''{"type":"dialogue"}'' = Inr (JObject [(''type'', JString ''dialogue'')])\<close>
  by (simp add: sampleRuntime_def sampleParse_def)

theorem missing_integrated_text_falls_back_witness:
  \<open>generatePrompt sampleRuntime (respondsWith ''{"type":"dialogue"}'')
       (Dialogue MULTI (dialogueOf []))
     = Inr \<lparr>json = JObject [(''type'', JString ''dialogue'')],
            integrated = JString ''Failed to generate integrated text.''\<rparr>\<close>
proof -
  let ?v = "JObject [(''type'', JString ''dialogue'')]"
  have a: \<open>respondsWith ''{"type":"dialogue"}''
             (modelRequest sampleRuntime (Dialogue MULTI (dialogueOf [])))
           = Response ''{"type":"dialogue"}''\<close>
    by (simp add: respondsWith_def)
  have b: \<open>JSON_parse sampleRuntime (trim ''{"type":"dialogue"}'') = Inr ?v\<close>
    by (simp add: trim_dialogue_only sampleParse_dialogue_only)
  have c: "?v \<noteq> JNull" by simp
  have d: "Get ?v ''integrated_text'' = None" by (simp add: Get_def)
  from missing_integrated_text_falls_back
    [of \<open>respondsWith ''{"type":"dialogue"}''\<close> sampleRuntime
      "Dialogue MULTI (dialogueOf [])" \<open>''{"type":"dialogue"}''\<close> ?v] a b c d
  show ?thesis by blast
qed

subsection \<open>C10: a falsy \<open>integrated_text\<close>\<close>

text \<open>
  C10. When the trimmed response text parses to a value whose property
  \<open>integrated_text\<close> is present and falsy, the empty string in particular,
  \<open>generatePrompt\<close> returns a result whose \<open>json\<close> is the parsed value and whose
  \<open>integrated\<close> is the string \<open>Failed to generate integrated text.\<close>, not the falsy
  value.
\<close>

theorem falsy_integrated_text_falls_back:
  "generateContent (modelRequest rt request) = Response text \<Longrightarrow>
   JSON_parse rt (trim text) = Inr parsed \<Longrightarrow>
   Get parsed ''integrated_text'' = Some v \<Longrightarrow>
   \<not> truthy v \<Longrightarrow>
     generatePrompt rt generateContent request
       = Inr \<lparr>json = parsed, integrated = JString ''Failed to generate integrated text.''\<rparr>"
proof -
  assume call: "generateContent (modelRequest rt request) = Response text"
    and parse: "JSON_parse rt (trim text) = Inr parsed"
    and present: "Get parsed ''integrated_text'' = Some v"
    and falsy: "\<not> truthy v"
  from present have not_null: "parsed \<noteq> JNull"
    by (auto simp: Get_def)
  from not_null present falsy
  have "(case parsed of
           JNull \<Rightarrow> Inl (rethrow (ErrorInstance (nullReadMessage rt ''integrated_text'')))
         | _ \<Rightarrow>
             Inr \<lparr>json = parsed,
                  integrated =
                    (case Get parsed ''integrated_text'' of
                       None \<Rightarrow> JString fallbackText
                     | Some v \<Rightarrow> if truthy v then v else JString fallbackText)\<rparr>)
        = Inr \<lparr>json = parsed, integrated = JString fallbackText\<rparr>"
    by (cases parsed) simp_all
  with call parse show ?thesis
    by (simp add: generatePrompt_def fallbackText_def)
qed

lemma trim_empty_text: \<open>trim ''{"integrated_text":""}'' = ''{"integrated_text":""}''\<close>
  by (simp add: trim_def isWhiteSpace_def)

lemma sampleParse_empty_text:
  \<open>JSON_parse sampleRuntime ''{"integrated_text":""}''
     = Inr (JObject [(''integrated_text'', JString [])])\<close>
  by (simp add: sampleRuntime_def sampleParse_def)

text \<open>
  The response whose \<open>integrated_text\<close> is the empty string.
\<close>

theorem falsy_integrated_text_falls_back_witness:
  \<open>generatePrompt sampleRuntime (respondsWith ''{"integrated_text":""}'')
       (Narration stormyNight)
     = Inr \<lparr>json = JObject [(''integrated_text'', JString [])],
            integrated = JString ''Failed to generate integrated text.''\<rparr>\<close>
proof -
  let ?v = "JObject [(''integrated_text'', JString [])]"
  have a: \<open>respondsWith ''{"integrated_text":""}''
             (modelRequest sampleRuntime (Narration stormyNight))
           = Response ''{"integrated_text":""}''\<close>
    by (simp add: respondsWith_def)
  have b: \<open>JSON_parse sampleRuntime (trim ''{"integrated_text":""}'') = Inr ?v\<close>
    by (simp add: trim_empty_text sampleParse_empty_text)
  have c: "Get ?v ''integrated_text'' = Some (JString [])" by (simp add: Get_def)
  have d: "\<not> truthy (JString [])" by simp
  from falsy_integrated_text_falls_back
    [of \<open>respondsWith ''{"integrated_text":""}''\<close> sampleRuntime
      "Narration stormyNight" \<open>''{"integrated_text":""}''\<close> ?v "JString []"] a b c d
  show ?thesis by blast
qed

subsection \<open>C8: the narrator-details helper\<close>

text \<open>
  C8 fails as stated: on the response \<open>{}\<close> the helper returns the empty object, which
  has no \<open>persona\<close>.
\<close>

theorem narrator_details_unchecked_counterexample:
  "generateNarratorDetailsSuggestion sampleRuntime (respondsWith ''{}'') ''Suggest details''
     = Inr (JObject [])
   \<and> Get (JObject []) ''persona'' = None"
  by (simp add: generateNarratorDetailsSuggestion_def respondsWith_def trim_braces
      sampleParse_braces Get_def)

text \<open>
  C8, amended. When \<open>JSON.parse\<close> fails on the trimmed response text, or the boundary
  rejects the call, the helper fails with the \<open>Error\<close> \<open>Failed to generate narrator
  details.\<close> and substitutes nothing. When the text parses, the helper returns the
  parsed value as it is, without checking for the four fields.
\<close>

theorem narrator_details_results:
  "(generateContent (narratorDetailsRequest prompt) = Response text
      \<and> JSON_parse rt (trim text) = Inl diagnostic \<longrightarrow>
      generateNarratorDetailsSuggestion rt generateContent prompt
        = Inl (Error ''Failed to generate narrator details.''))
   \<and> (generateContent (narratorDetailsRequest prompt) = Threw e \<longrightarrow>
      generateNarratorDetailsSuggestion rt generateContent prompt
        = Inl (Error ''Failed to generate narrator details.''))
   \<and> (generateContent (narratorDetailsRequest prompt) = Response text
      \<and> JSON_parse rt (trim text) = Inr parsed \<longrightarrow>
      generateNarratorDetailsSuggestion rt generateContent prompt = Inr parsed)"
proof (intro conjI impI)
  assume "generateContent (narratorDetailsRequest prompt) = Response text
      \<and> JSON_parse rt (trim text) = Inl diagnostic"
  then show "generateNarratorDetailsSuggestion rt generateContent prompt
        = Inl (Error ''Failed to generate narrator details.'')"
    by (simp add: generateNarratorDetailsSuggestion_def)
next
  assume "generateContent (narratorDetailsRequest prompt) = Threw e"
  then show "generateNarratorDetailsSuggestion rt generateContent prompt
        = Inl (Error ''Failed to generate narrator details.'')"
    by (simp add: generateNarratorDetailsSuggestion_def)
next
  assume "generateContent (narratorDetailsRequest prompt) = Response text
      \<and> JSON_parse rt (trim text) = Inr parsed"
  then show "generateNarratorDetailsSuggestion rt generateContent prompt = Inr parsed"
    by (simp add: generateNarratorDetailsSuggestion_def)
qed

theorem narrator_details_results_witness:
  "generateNarratorDetailsSuggestion sampleRuntime (respondsWith ''not json'') ''Suggest details''
     = Inl (Error ''Failed to generate narrator details.'')
   \<and> generateNarratorDetailsSuggestion sampleRuntime (rejectsWith NotAnError) ''Suggest details''
     = Inl (Error ''Failed to generate narrator details.'')
   \<and> generateNarratorDetailsSuggestion sampleRuntime (respondsWith ''null'') ''Suggest details''
     = Inr JNull"
proof (intro conjI)
  have "respondsWith ''not json'' (narratorDetailsRequest ''Suggest details'') = Response ''not json''
        \<and> JSON_parse sampleRuntime (trim ''not json'') = Inl ''Unexpected token''"
    by (simp add: respondsWith_def trim_not_json sampleParse_not_json)
  with narrator_details_results
    [of "respondsWith ''not json''" "''Suggest details''" "''not json''" sampleRuntime]
  show "generateNarratorDetailsSuggestion sampleRuntime (respondsWith ''not json'')
          ''Suggest details'' = Inl (Error ''Failed to generate narrator details.'')"
    by blast
next
  have "rejectsWith NotAnError (narratorDetailsRequest ''Suggest details'') = Threw NotAnError"
    by (simp add: rejectsWith_def)
  with narrator_details_results
    [of "rejectsWith NotAnError" "''Suggest details''" _ sampleRuntime _ NotAnError]
  show "generateNarratorDetailsSuggestion sampleRuntime (rejectsWith NotAnError)
          ''Suggest details'' = Inl (Error ''Failed to generate narrator details.'')"
    by blast
next
  have "respondsWith ''null'' (narratorDetailsRequest ''Suggest details'') = Response ''null''
        \<and> JSON_parse sampleRuntime (trim ''null'') = Inr JNull"
    by (simp add: respondsWith_def trim_null sampleParse_null)
  with narrator_details_results
    [of "respondsWith ''null''" "''Suggest details''" "''null''" sampleRuntime _ _ JNull]
  show "generateNarratorDetailsSuggestion sampleRuntime (respondsWith ''null'')
          ''Suggest details'' = Inr JNull"
    by blast
qed

subsection \<open>C7: the displayed error message\<close>

lemma sampleParse_empty_message:
  \<open>JSON_parse sampleRuntime ''{"error":{"message":""}}''
     = Inr (JObject [(''error'', JObject [(''message'', JString [])])])\<close>
  by (simp add: sampleRuntime_def sampleParse_def)

text \<open>
  C7 fails as stated: the suffix decodes to an object that contains \<open>error.message\<close>, the
  empty string, and the message displayed is the raw error string, not the localized
  prefix with that message.
\<close>

theorem empty_message_counterexample:
  \<open>JSON_parse sampleRuntime ''{"error":{"message":""}}''
     = Inr (JObject [(''error'', JObject [(''message'', JString [])])])
   \<and> prettyErrorMessage sampleText sampleRuntime
       (Some ''Gemini API Error: {"error":{"message":""}}'')
     = Some ''Gemini API Error: {"error":{"message":""}}''
   \<and> geminiErrorPrefix sampleText = ''Gemini API error''\<close>
  by (simp add: prettyErrorMessage_def sampleParse_empty_message optGet_def Get_def
      sampleText_def)

lemma prettyErrorMessage_prefixed:
  "prettyErrorMessage T rt (Some (''Gemini API Error: '' @ jsonPart)) =
     (case JSON_parse rt jsonPart of
        Inl diagnostic \<Rightarrow> Some (geminiErrorPrefix T @ '': '' @ jsonPart)
      | Inr parsed \<Rightarrow>
          (case optGet (optGet (Some parsed) ''error'') ''message'' of
             None \<Rightarrow> Some (''Gemini API Error: '' @ jsonPart)
           | Some m \<Rightarrow>
               if truthy m
               then (case ToString m of
                       None \<Rightarrow> Some (geminiErrorPrefix T @ '': '' @ jsonPart)
                     | Some s \<Rightarrow> Some (geminiErrorPrefix T @ '': '' @ s))
               else Some (''Gemini API Error: '' @ jsonPart)))"
  by (simp add: prettyErrorMessage_def split: sum.splits option.splits)

text \<open>
  C7, amended. For an error string that starts with \<open>Gemini API Error: \<close>: when the rest
  decodes to a value whose \<open>error.message\<close> is a non-empty string, the message displayed
  is \<open>geminiErrorPrefix\<close>, a colon and a space, then that string; when the rest does not
  decode, it is \<open>geminiErrorPrefix\<close>, a colon and a space, then the rest as it is; when
  the rest decodes and \<open>error.message\<close> is absent or falsy, it is the error string
  unchanged.
\<close>

theorem pretty_error_message_cases:
  "(JSON_parse rt jsonPart = Inr parsed
      \<and> optGet (optGet (Some parsed) ''error'') ''message'' = Some (JString m) \<and> m \<noteq> [] \<longrightarrow>
      prettyErrorMessage T rt (Some (''Gemini API Error: '' @ jsonPart))
        = Some (geminiErrorPrefix T @ '': '' @ m))
   \<and> (JSON_parse rt jsonPart = Inl diagnostic \<longrightarrow>
      prettyErrorMessage T rt (Some (''Gemini API Error: '' @ jsonPart))
        = Some (geminiErrorPrefix T @ '': '' @ jsonPart))
   \<and> (JSON_parse rt jsonPart = Inr parsed
      \<and> (optGet (optGet (Some parsed) ''error'') ''message'' = None
          \<or> (\<exists>v. optGet (optGet (Some parsed) ''error'') ''message'' = Some v \<and> \<not> truthy v)) \<longrightarrow>
      prettyErrorMessage T rt (Some (''Gemini API Error: '' @ jsonPart))
        = Some (''Gemini API Error: '' @ jsonPart))"
  unfolding prettyErrorMessage_prefixed by auto

text \<open>
  The scenario of the specification (\<open>quota exceeded\<close>), a suffix that is not JSON and
  one that decodes to an object without \<open>error\<close>.
\<close>

theorem pretty_error_message_cases_witness:
  \<open>prettyErrorMessage sampleText sampleRuntime
       (Some ''Gemini API Error: {"error":{"message":"quota exceeded"}}'')
     = Some ''Gemini API error: quota exceeded''
   \<and> prettyErrorMessage sampleText sampleRuntime (Some ''Gemini API Error: not json'')
     = Some ''Gemini API error: not json''
   \<and> prettyErrorMessage sampleText sampleRuntime (Some ''Gemini API Error: {}'')
     = Some ''Gemini API Error: {}''\<close>
proof (intro conjI)
  let ?s = \<open>''{"error":{"message":"quota exceeded"}}''\<close>
  let ?p = "JObject [(''error'', JObject [(''message'', JString ''quota exceeded'')])]"
  have "JSON_parse sampleRuntime ?s = Inr ?p
      \<and> optGet (optGet (Some ?p) ''error'') ''message'' = Some (JString ''quota exceeded'')
      \<and> ''quota exceeded'' \<noteq> []"
    by (simp add: sampleParse_quota optGet_def Get_def)
  with pretty_error_message_cases [of sampleRuntime ?s ?p "''quota exceeded''" sampleText]
  have "prettyErrorMessage sampleText sampleRuntime (Some (''Gemini API Error: '' @ ?s))
        = Some (geminiErrorPrefix sampleText @ '': '' @ ''quota exceeded'')"
    by blast
  then show \<open>prettyErrorMessage sampleText sampleRuntime
       (Some ''Gemini API Error: {"error":{"message":"quota exceeded"}}'')
     = Some ''Gemini API error: quota exceeded''\<close>
    by (simp add: sampleText_def)
next
  have "JSON_parse sampleRuntime ''not json'' = Inl ''Unexpected token''"
    by (rule sampleParse_not_json)
  with pretty_error_message_cases
    [of sampleRuntime "''not json''" _ _ sampleText "''Unexpected token''"]
  have "prettyErrorMessage sampleText sampleRuntime (Some (''Gemini API Error: '' @ ''not json''))
        = Some (geminiErrorPrefix sampleText @ '': '' @ ''not json'')"
    by blast
  then show "prettyErrorMessage sampleText sampleRuntime (Some ''Gemini API Error: not json'')
     = Some ''Gemini API error: not json''"
    by (simp add: sampleText_def)
next
  have "JSON_parse sampleRuntime ''{}'' = Inr (JObject [])
      \<and> (optGet (optGet (Some (JObject [])) ''error'') ''message'' = None
          \<or> (\<exists>v. optGet (optGet (Some (JObject [])) ''error'') ''message'' = Some v
                \<and> \<not> truthy v))"
    by (simp add: sampleParse_braces optGet_def Get_def)
  with pretty_error_message_cases [of sampleRuntime "''{}''" "JObject []" _ sampleText]
  have "prettyErrorMessage sampleText sampleRuntime (Some (''Gemini API Error: '' @ ''{}''))
        = Some (''Gemini API Error: '' @ ''{}'')"
    by blast
  then show "prettyErrorMessage sampleText sampleRuntime (Some ''Gemini API Error: {}'')
     = Some ''Gemini API Error: {}''"
    by simp
qed

subsection \<open>C9: removing a character\<close>

lemma removed_line_fields:
  "l_id (if l_characterId l = cid then l\<lparr>l_characterId := []\<rparr> else l) = l_id l"
  "l_line (if l_characterId l = cid then l\<lparr>l_characterId := []\<rparr> else l) = l_line l"
  "l_emotion (if l_characterId l = cid then l\<lparr>l_characterId := []\<rparr> else l) = l_emotion l"
  "l_tone (if l_characterId l = cid then l\<lparr>l_characterId := []\<rparr> else l) = l_tone l"
  "l_characterId (if l_characterId l = cid then l\<lparr>l_characterId := []\<rparr> else l)
     = (if l_characterId l = cid then [] else l_characterId l)"
  by simp_all

text \<open>
  C9. \<open>handleRemoveCharacter\<close> keeps the script lines in place; each line keeps its
  \<open>id\<close>, text, emotion and tone, and its character reference becomes the empty string
  (unassigned) exactly when it was the removed id. Afterwards no line that names a
  character names the removed id, no character has that id, and the invariant
  \<open>refsExist\<close> (every reference that is not empty is the id of a current character) is
  preserved.
\<close>

theorem remove_character_clears_references:
  "length (script (handleRemoveCharacter cid st)) = length (script st)
   \<and> (\<forall>i<length (script st).
        l_id (script (handleRemoveCharacter cid st) ! i) = l_id (script st ! i)
        \<and> l_line (script (handleRemoveCharacter cid st) ! i) = l_line (script st ! i)
        \<and> l_emotion (script (handleRemoveCharacter cid st) ! i) = l_emotion (script st ! i)
        \<and> l_tone (script (handleRemoveCharacter cid st) ! i) = l_tone (script st ! i)
        \<and> l_characterId (script (handleRemoveCharacter cid st) ! i)
            = (if l_characterId (script st ! i) = cid then []
               else l_characterId (script st ! i)))
   \<and> (\<forall>l\<in>set (script (handleRemoveCharacter cid st)).
        l_characterId l \<noteq> [] \<longrightarrow> l_characterId l \<noteq> cid)
   \<and> cid \<notin> c_id ` set (characters (handleRemoveCharacter cid st))
   \<and> (refsExist st \<longrightarrow> refsExist (handleRemoveCharacter cid st))"
proof (intro conjI allI impI ballI)
  show "length (script (handleRemoveCharacter cid st)) = length (script st)"
    by (simp add: handleRemoveCharacter_def)
next
  fix i assume "i < length (script st)"
  then have e: "script (handleRemoveCharacter cid st) ! i
      = (if l_characterId (script st ! i) = cid then (script st ! i)\<lparr>l_characterId := []\<rparr>
         else script st ! i)"
    by (simp add: handleRemoveCharacter_def)
  show "l_id (script (handleRemoveCharacter cid st) ! i) = l_id (script st ! i)"
    unfolding e by (rule removed_line_fields)
  show "l_line (script (handleRemoveCharacter cid st) ! i) = l_line (script st ! i)"
    unfolding e by (rule removed_line_fields)
  show "l_emotion (script (handleRemoveCharacter cid st) ! i) = l_emotion (script st ! i)"
    unfolding e by (rule removed_line_fields)
  show "l_tone (script (handleRemoveCharacter cid st) ! i) = l_tone (script st ! i)"
    unfolding e by (rule removed_line_fields)
  show "l_characterId (script (handleRemoveCharacter cid st) ! i)
            = (if l_characterId (script st ! i) = cid then []
               else l_characterId (script st ! i))"
    unfolding e by (rule removed_line_fields)
next
  fix l assume "l \<in> set (script (handleRemoveCharacter cid st))" and "l_characterId l \<noteq> []"
  then show "l_characterId l \<noteq> cid"
    by (auto simp: handleRemoveCharacter_def split: if_splits)
next
  show "cid \<notin> c_id ` set (characters (handleRemoveCharacter cid st))"
    by (auto simp: handleRemoveCharacter_def)
next
  assume "refsExist st"
  then show "refsExist (handleRemoveCharacter cid st)"
    by (auto simp: refsExist_def handleRemoveCharacter_def split: if_splits)
qed

text \<open>
  A form with a line of Alice, a line of Bob and an unassigned line, from which Alice is
  removed.
\<close>

theorem remove_character_clears_references_witness:
  "refsExist (formState [aliceLine, blankLine, unassignedLine])
   \<and> refsExist (handleRemoveCharacter ''char-a'' (formState [aliceLine, blankLine, unassignedLine]))
   \<and> script (handleRemoveCharacter ''char-a'' (formState [aliceLine, blankLine, unassignedLine]))
       = [aliceLine\<lparr>l_characterId := []\<rparr>, blankLine, unassignedLine]
   \<and> characters (handleRemoveCharacter ''char-a'' (formState [aliceLine, blankLine, unassignedLine]))
       = [bob]"
proof (intro conjI)
  let ?st = "formState [aliceLine, blankLine, unassignedLine]"
  show r: "refsExist ?st"
    by (simp add: refsExist_def formState_def aliceLine_def blankLine_def unassignedLine_def
        alice_def bob_def)
  with remove_character_clears_references [of "''char-a''" ?st]
  show "refsExist (handleRemoveCharacter ''char-a'' ?st)"
    by blast
  show "script (handleRemoveCharacter ''char-a'' ?st)
       = [aliceLine\<lparr>l_characterId := []\<rparr>, blankLine, unassignedLine]"
    by (simp add: handleRemoveCharacter_def formState_def aliceLine_def blankLine_def
        unassignedLine_def)
  show "characters (handleRemoveCharacter ''char-a'' ?st) = [bob]"
    by (simp add: handleRemoveCharacter_def formState_def alice_def bob_def)
qed

end
